theory Spec2Isabelle
  imports Main "HOL-Library.Sublist"
begin

unbundle bit_operations_syntax

section \<open>The GMP recipe (recipes/gmp/all/conanfile.py)\<close>

text \<open>
  The recipe is a Python class \<open>GmpConan\<close> whose methods read and mutate the attributes
  of the recipe object (\<open>self.options\<close>, \<open>self.settings\<close>, \<open>self.cpp_info\<close>, ...)
  and call external tools. Each method is embedded as a function from the state of the
  recipe object to an outcome: the state it leaves, and the exception when it raises.
\<close>

subsection \<open>Values, exceptions, external commands\<close>

text \<open>The Python values that occur in the options dictionaries.\<close>

datatype pyvalue = PyBool bool | PyInt int | PyStr string | PyNone

text \<open>
  The exceptions of the file. \<open>ConanException n\<close> is the error of the options object for
  an option \<open>n\<close> that does not exist; \<open>ToolFailure\<close> stands for whatever an external
  tool raises.
\<close>

datatype exn =
    ConanInvalidConfiguration string
  | ConanException string
  | KeyError string
  | FileNotFoundError string
  | AttributeError string string
  | TypeError string
  | SyntaxError string
  | ToolFailure string

text \<open>The calls that leave the recipe: the Conan tools and the autotools driver.\<close>

datatype command =
    Get string string
  | ExportConandataPatches
  | ApplyConandataPatches
  | VirtualBuildEnvGenerate
  | AutotoolsConfigure
  | AutotoolsMake "string option"
  | AutotoolsInstall
  | Copy string string string
  | Rmdir string
  | Rm string string
  | FixAppleSharedInstallName
  | ToolchainGenerate

subsection \<open>The recipe object\<close>

record cpp_component =
  properties :: "string \<rightharpoonup> string"
  libs :: "string list"
  requires :: "string list"
  system_libs :: "string list"
  names :: "string \<rightharpoonup> string"

record cpp_info_t =
  root_properties :: "string \<rightharpoonup> string"
  root_names :: "string \<rightharpoonup> string"
  components :: "string \<rightharpoonup> cpp_component"

record toolchain_t =
  configure_args :: "string list"
  extra_cflags :: "string list"
  extra_cxxflags :: "string list"
  env_defines :: "(string \<times> string) list"

record world =
  ref :: string
  version :: string
  settings :: "string \<rightharpoonup> string"
  settings_build :: "(string \<rightharpoonup> string) option"
  options :: "string \<rightharpoonup> pyvalue"
  info_options :: "string \<rightharpoonup> pyvalue"
  conf :: "string \<rightharpoonup> string"
  conan_data_sources :: "string \<rightharpoonup> string"
  source_folder :: string
  package_folder :: string
  file_mode :: "string \<rightharpoonup> int"
  tool_result :: "command \<Rightarrow> exn option"
  commands :: "command list"
  win_bash :: bool
  tool_requires :: "string list"
  toolchain :: toolchain_t
  cpp_info :: cpp_info_t

datatype outcome = Returns world | Raises exn world

fun world_of :: "outcome \<Rightarrow> world" where
  "world_of (Returns w) = w"
| "world_of (Raises e w) = w"

fun raised :: "outcome \<Rightarrow> exn option" where
  "raised (Returns w) = None"
| "raised (Raises e w) = Some e"

text \<open>A block of statements: the first exception ends it.\<close>

fun run :: "(world \<Rightarrow> outcome) list \<Rightarrow> world \<Rightarrow> outcome" where
  "run [] w = Returns w"
| "run (s # ss) w = (case s w of Returns w' \<Rightarrow> run ss w' | Raises e w' \<Rightarrow> Raises e w')"

definition if_cond :: "(world \<Rightarrow> bool) \<Rightarrow> (world \<Rightarrow> outcome) \<Rightarrow> world \<Rightarrow> outcome" where
  "if_cond c body w = (if c w then body w else Returns w)"

subsection \<open>The class attributes \<open>options\<close> and \<open>default_options\<close>\<close>

definition GmpConan_options :: "(string \<times> pyvalue list) list" where
  "GmpConan_options =
    [(''shared'', [PyBool True, PyBool False]),
     (''fPIC'', [PyBool True, PyBool False]),
     (''assembly'', [PyBool True, PyBool False]),
     (''cxx'', [PyBool True, PyBool False]),
     (''fat'', [PyBool True, PyBool False]),
     (''alloca'', [PyStr ''alloca'', PyStr ''malloc-reentrant'', PyStr ''malloc-notreentrant'',
                  PyStr ''reentrant'', PyStr ''notreentrant'', PyStr ''debug'']),
     (''fft'', [PyBool True, PyBool False]),
     (''old_fft_full'', [PyBool True, PyBool False]),
     (''assertions'', [PyBool True, PyBool False]),
     (''profiling'', [PyStr ''prof'', PyStr ''gprof'', PyStr ''instrument'', PyNone]),
     (''nails'', PyBool True # map (\<lambda>n. PyInt (int n)) [0..<64]),
     (''minithres'', [PyBool True, PyBool False]),
     (''fake_cpuid'', [PyBool True, PyBool False]),
     (''maintainer_mode'', [PyBool True, PyBool False]),
     (''with_aix_soname'', [PyStr ''aix'', PyStr ''svr4'', PyStr ''both'']),
     (''with_gnu_ld'', [PyBool True, PyBool False]),
     (''run_checks'', [PyBool True, PyBool False])]"

definition GmpConan_default_options :: "(string \<times> pyvalue) list" where
  "GmpConan_default_options =
    [(''shared'', PyBool False),
     (''fPIC'', PyBool False),
     (''assembly'', PyBool True),
     (''cxx'', PyBool False),
     (''fat'', PyBool False),
     (''alloca'', PyStr ''reentrant''),
     (''fft'', PyBool True),
     (''old_fft_full'', PyBool False),
     (''assertions'', PyBool False),
     (''profiling'', PyNone),
     (''nails'', PyInt 0),
     (''minithres'', PyBool False),
     (''fake_cpuid'', PyBool False),
     (''maintainer_mode'', PyBool False),
     (''with_aix_soname'', PyStr ''aix''),
     (''with_gnu_ld'', PyBool False),
     (''run_checks'', PyBool True)]"

text \<open>
  The names the recipe declares. Conan refuses a value for an option that the recipe does
  not declare, so the options object never holds another name.
\<close>

definition declared :: "string \<Rightarrow> bool" where
  "declared n = (n \<in> set (map fst GmpConan_options))"

subsection \<open>The options and settings objects of Conan\<close>

text \<open>
  Conan keeps option values as text; \<open>bool\<close> of an option is false for the texts
  false, none, 0, off and the empty text, whatever their case.
\<close>

definition lower_char :: "char \<Rightarrow> char" where
  "lower_char c =
     (let n = (of_char c :: nat) in if 65 \<le> n \<and> n \<le> 90 then char_of (n + 32) else c)"

fun truthy :: "pyvalue \<Rightarrow> bool" where
  "truthy (PyBool b) = b"
| "truthy (PyInt n) = (n \<noteq> 0)"
| "truthy PyNone = False"
| "truthy (PyStr s) =
     (map lower_char s \<notin> set [''false'', ''none'', ''0'', ''off'', ''''])"

text \<open>\<open>self.options.<name>\<close>: reading an option that does not exist raises.\<close>

definition options_getattr :: "world \<Rightarrow> string \<Rightarrow> exn + pyvalue" where
  "options_getattr w n = (case options w n of None \<Rightarrow> Inl (ConanException n) | Some v \<Rightarrow> Inr v)"

text \<open>\<open>self.options.get_safe(name, default)\<close>.\<close>

definition options_get_safe :: "world \<Rightarrow> string \<Rightarrow> pyvalue \<Rightarrow> pyvalue" where
  "options_get_safe w n d = (case options w n of None \<Rightarrow> d | Some v \<Rightarrow> v)"

text \<open>\<open>del self.options.<name>\<close>: deleting an option that does not exist raises.\<close>

definition options_delattr :: "string \<Rightarrow> world \<Rightarrow> outcome" where
  "options_delattr n w =
     (case options w n of
        None \<Rightarrow> Raises (ConanException n) w
      | Some v \<Rightarrow> Returns (w\<lparr>options := (options w)(n := None)\<rparr>))"

text \<open>\<open>self.options.rm_safe(name)\<close>: the deletion, with its exception swallowed.\<close>

definition options_rm_safe :: "string \<Rightarrow> world \<Rightarrow> outcome" where
  "options_rm_safe n w =
     (case options_delattr n w of Returns w' \<Rightarrow> Returns w' | Raises e w' \<Rightarrow> Returns w')"

definition settings_rm_safe :: "string \<Rightarrow> world \<Rightarrow> outcome" where
  "settings_rm_safe n w = Returns (w\<lparr>settings := (settings w)(n := None)\<rparr>)"

text \<open>\<open>if self.options.<name>: body\<close> and \<open>if not self.options.<name>: body\<close>.\<close>

definition if_option :: "string \<Rightarrow> (world \<Rightarrow> outcome) \<Rightarrow> world \<Rightarrow> outcome" where
  "if_option n body w =
     (case options_getattr w n of
        Inl e \<Rightarrow> Raises e w
      | Inr v \<Rightarrow> if truthy v then body w else Returns w)"

definition if_not_option :: "string \<Rightarrow> (world \<Rightarrow> outcome) \<Rightarrow> world \<Rightarrow> outcome" where
  "if_not_option n body w =
     (case options_getattr w n of
        Inl e \<Rightarrow> Raises e w
      | Inr v \<Rightarrow> if \<not> truthy v then body w else Returns w)"

text \<open>
  The helpers \<open>is_msvc\<close> and \<open>is_apple_os\<close> of \<open>conan.tools\<close>, which test the
  settings \<open>compiler\<close> and \<open>os\<close> against Conan's lists of names. The theorems below
  speak of them as they are and do not depend on the lists.
\<close>

definition is_msvc :: "world \<Rightarrow> bool" where
  "is_msvc w = (settings w ''compiler'' \<in> {Some ''Visual Studio'', Some ''msvc''})"

definition is_apple_os :: "world \<Rightarrow> bool" where
  "is_apple_os w =
     (settings w ''os'' \<in> {Some ''Macos'', Some ''iOS'', Some ''watchOS'', Some ''tvOS'',
                           Some ''visionOS''})"

text \<open>The property \<open>_settings_build\<close>: \<open>getattr(self, "settings_build", self.settings)\<close>.\<close>

definition settings_build_of :: "world \<Rightarrow> (string \<rightharpoonup> string)" where
  "settings_build_of w = (case settings_build w of None \<Rightarrow> settings w | Some s \<Rightarrow> s)"

text \<open>An external call: it is recorded, and what the tool raises is raised.\<close>

definition invoke :: "command \<Rightarrow> world \<Rightarrow> outcome" where
  "invoke c w =
     (let w' = w\<lparr>commands := commands w @ [c]\<rparr>
      in case tool_result w c of None \<Rightarrow> Returns w' | Some e \<Rightarrow> Raises e w')"

subsection \<open>The methods of the recipe\<close>

definition config_options :: "world \<Rightarrow> outcome" where
  "config_options =
     run [if_cond (\<lambda>w. settings w ''os'' = Some ''Windows'') (options_delattr ''fPIC''),
          if_cond (\<lambda>w. settings w ''arch'' \<notin> {Some ''x86'', Some ''x86_64''})
            (options_delattr ''enable_fat'')]"

definition configure :: "world \<Rightarrow> outcome" where
  "configure =
     run [if_option ''shared'' (options_rm_safe ''fPIC''),
          if_cond (\<lambda>w. truthy (options_get_safe w ''enable_fat'' PyNone))
            (options_delattr ''enable_assembly''),
          if_not_option ''enable_cxx''
            (run [settings_rm_safe ''compiler.libcxx'', settings_rm_safe ''compiler.cppstd''])]"

definition package_id :: "world \<Rightarrow> outcome" where
  "package_id w =
     (case info_options w ''run_checks'' of
        None \<Rightarrow> Raises (ConanException ''run_checks'') w
      | Some v \<Rightarrow> Returns (w\<lparr>info_options := (info_options w)(''run_checks'' := None)\<rparr>))"

definition validate :: "world \<Rightarrow> outcome" where
  "validate w =
     (if is_msvc w then
        (case options_getattr w ''shared'' of
           Inl e \<Rightarrow> Raises e w
         | Inr v \<Rightarrow>
             if truthy v then
               Raises (ConanInvalidConfiguration
                 (ref w @ '' cannot be built as a shared library using Visual Studio: some error occurs at link time'')) w
             else Returns w)
      else Returns w)"

definition export_sources :: "world \<Rightarrow> outcome" where
  "export_sources = invoke ExportConandataPatches"

definition self_tool_requires :: "string \<Rightarrow> world \<Rightarrow> outcome" where
  "self_tool_requires r w = Returns (w\<lparr>tool_requires := tool_requires w @ [r]\<rparr>)"

text \<open>
  \<open>self.conf.get("tools.microsoft.bash:path", check_type=str)\<close> is tested with
  \<open>not\<close>: an entry that is not set and the empty text both count as false.
\<close>

definition build_requirements :: "world \<Rightarrow> outcome" where
  "build_requirements =
     run [if_cond (\<lambda>w. settings_build_of w ''os'' = Some ''Windows'')
            (run [\<lambda>w. Returns (w\<lparr>win_bash := True\<rparr>),
                  if_cond (\<lambda>w. conf w ''tools.microsoft.bash:path'' \<in> {None, Some []})
                    (self_tool_requires ''msys2/cci.latest'')]),
          if_cond is_msvc
            (run [self_tool_requires ''yasm/1.3.0'', self_tool_requires ''automake/1.16.5''])]"

definition source :: "world \<Rightarrow> outcome" where
  "source w =
     (case conan_data_sources w (version w) of
        None \<Rightarrow> Raises (KeyError (version w)) w
      | Some d \<Rightarrow> invoke (Get d (source_folder w)) w)"

text \<open>\<open>os.path.join\<close> of a folder and a relative name.\<close>

definition path_join :: "string \<Rightarrow> string \<Rightarrow> string" where
  "path_join a b = (if a = [] then b else if last a = CHR ''/'' then a @ b else a @ ''/'' @ b)"

text \<open>The local function \<open>yes_no\<close> of \<open>generate\<close>.\<close>

definition yes_no :: "pyvalue \<Rightarrow> string" where
  "yes_no v = (if truthy v then ''yes'' else ''no'')"

definition tc_extend_configure_args :: "string list \<Rightarrow> world \<Rightarrow> outcome" where
  "tc_extend_configure_args xs w =
     Returns (w\<lparr>toolchain := (toolchain w)\<lparr>configure_args := configure_args (toolchain w) @ xs\<rparr>\<rparr>)"

definition tc_append_cflags :: "string \<Rightarrow> world \<Rightarrow> outcome" where
  "tc_append_cflags x w =
     Returns (w\<lparr>toolchain := (toolchain w)\<lparr>extra_cflags := extra_cflags (toolchain w) @ [x]\<rparr>\<rparr>)"

definition tc_append_cxxflags :: "string \<Rightarrow> world \<Rightarrow> outcome" where
  "tc_append_cxxflags x w =
     Returns (w\<lparr>toolchain := (toolchain w)\<lparr>extra_cxxflags := extra_cxxflags (toolchain w) @ [x]\<rparr>\<rparr>)"

definition env_define :: "string \<Rightarrow> string \<Rightarrow> world \<Rightarrow> outcome" where
  "env_define k v w =
     Returns (w\<lparr>toolchain := (toolchain w)\<lparr>env_defines := env_defines (toolchain w) @ [(k, v)]\<rparr>\<rparr>)"

text \<open>
  The four flags of \<open>generate\<close>. The elements of the list are evaluated in order; the
  first three cannot raise, the fourth reads \<open>self.options.enable_cxx\<close>, which raises for
  an option that does not exist.
\<close>

definition generate_flags :: "world \<Rightarrow> exn + string list" where
  "generate_flags w =
     (case options_getattr w ''enable_cxx'' of
        Inl e \<Rightarrow> Inl e
      | Inr cxx \<Rightarrow>
          Inr [''--with-pic='' @ yes_no (options_get_safe w ''fPIC'' (PyBool True)),
               ''--enable-assembly='' @ yes_no (options_get_safe w ''enable_assembly'' (PyBool False)),
               ''--enable-fat='' @ yes_no (options_get_safe w ''enable_fat'' (PyBool False)),
               ''--enable-cxx='' @ yes_no cxx])"

text \<open>
  \<open>generate\<close>. Two functions of Conan are parameters: \<open>version_ge v s\<close> is
  \<open>Version(v) >= s\<close> of \<open>conan.tools.scm\<close>, and \<open>unix_path\<close> is the path conversion
  of \<open>conan.tools.microsoft\<close>, here also applied to a configuration entry that is not set.
\<close>

definition generate ::
  "(string option \<Rightarrow> string \<Rightarrow> bool) \<Rightarrow> (string option \<Rightarrow> string) \<Rightarrow> world \<Rightarrow> outcome" where
  "generate version_ge unix_path =
     run [invoke VirtualBuildEnvGenerate,
          (\<lambda>w. case generate_flags w of
                  Inl e \<Rightarrow> Raises e w
                | Inr flags \<Rightarrow> tc_extend_configure_args flags w),
          if_cond (\<lambda>w. settings_build_of w ''os'' = Some ''Windows'')
            (tc_extend_configure_args [''--srcdir=../src'']),
          if_cond is_msvc
            (run [tc_extend_configure_args
                    [''ac_cv_c_restrict=restrict'', ''gmp_cv_asm_label_suffix=:'',
                     ''lt_cv_sys_global_symbol_pipe=cat''],
                  tc_append_cxxflags ''-EHsc'',
                  if_cond (\<lambda>w.
                      (settings w ''compiler'' = Some ''msvc''
                        \<and> version_ge (settings w ''compiler.version'') ''180'')
                      \<or> (settings w ''compiler'' = Some ''Visual Studio''
                        \<and> version_ge (settings w ''compiler.version'') ''12''))
                    (run [tc_append_cflags ''-FS'', tc_append_cxxflags ''-FS''])]),
          if_cond is_msvc
            (\<lambda>w.
               let yasm_wrapper = unix_path (Some (path_join (source_folder w) ''yasm_wrapper.sh''))
               in case map_of [(Some ''x86'', ''x86''), (Some ''x86_64'', ''amd64'')]
                         (settings w ''arch'') of
                    None \<Rightarrow>
                      Raises (KeyError (case settings w ''arch'' of None \<Rightarrow> ''None'' | Some a \<Rightarrow> a)) w
                  | Some yasm_machine \<Rightarrow>
                      (let ar_wrapper = unix_path (conf w ''user.automake:lib-wrapper'');
                           dumpbin_nm = unix_path (Some (path_join (source_folder w) ''dumpbin_nm.py''))
                       in run [env_define ''CC'' ''cl -nologo'',
                               env_define ''CCAS''
                                 (yasm_wrapper @ '' -a x86 -m '' @ yasm_machine
                                    @ '' -p gas -r raw -f win32 -g null -X gnu''),
                               env_define ''CXX'' ''cl -nologo'',
                               env_define ''LD'' ''link -nologo'',
                               env_define ''AR'' (ar_wrapper @ '' '' @ [CHR 0x22] @ ''lib -nologo'' @ [CHR 0x22]),
                               env_define ''NM'' (''python '' @ dumpbin_nm)] w)),
          invoke ToolchainGenerate]"

text \<open>\<open>stat.S_IEXEC\<close> is the octal 100.\<close>

definition S_IEXEC :: int where
  "S_IEXEC = 64"

text \<open>\<open>os.stat(f).st_mode\<close> and \<open>os.chmod(f, m)\<close>; both raise for a file that is not there.\<close>

definition os_stat :: "world \<Rightarrow> string \<Rightarrow> exn + int" where
  "os_stat w f = (case file_mode w f of None \<Rightarrow> Inl (FileNotFoundError f) | Some m \<Rightarrow> Inr m)"

definition os_chmod :: "string \<Rightarrow> int \<Rightarrow> world \<Rightarrow> outcome" where
  "os_chmod f m w =
     (case file_mode w f of
        None \<Rightarrow> Raises (FileNotFoundError f) w
      | Some old \<Rightarrow> Returns (w\<lparr>file_mode := (file_mode w)(f \<mapsto> m)\<rparr>))"

definition patch_sources :: "world \<Rightarrow> outcome" where
  "patch_sources =
     run [invoke ApplyConandataPatches,
          if_cond is_apple_os
            (\<lambda>w. let configure_file = path_join (source_folder w) ''configure''
                  in case os_stat w configure_file of
                       Inl e \<Rightarrow> Raises e w
                     | Inr st_mode \<Rightarrow> os_chmod configure_file (st_mode OR S_IEXEC) w)]"

definition build :: "world \<Rightarrow> outcome" where
  "build =
     run [patch_sources,
          invoke AutotoolsConfigure,
          invoke (AutotoolsMake None),
          if_option ''run_checks'' (invoke (AutotoolsMake (Some ''check'')))]"

definition package :: "world \<Rightarrow> outcome" where
  "package =
     run [\<lambda>w. invoke (Copy ''COPYINGv2'' (source_folder w) (path_join (package_folder w) ''licenses'')) w,
          \<lambda>w. invoke (Copy ''COPYING.LESSERv3'' (source_folder w)
                          (path_join (package_folder w) ''licenses'')) w,
          invoke AutotoolsInstall,
          \<lambda>w. invoke (Rmdir (path_join (path_join (package_folder w) ''lib'') ''pkgconfig'')) w,
          \<lambda>w. invoke (Rmdir (path_join (package_folder w) ''share'')) w,
          \<lambda>w. invoke (Rm ''*.la'' (path_join (package_folder w) ''lib'')) w,
          invoke FixAppleSharedInstallName]"

text \<open>
  \<open>self.cpp_info.components[name]\<close> creates the component when it is not there yet.
\<close>

definition empty_component :: cpp_component where
  "empty_component =
     \<lparr>properties = Map.empty, libs = [], requires = [], system_libs = [], names = Map.empty\<rparr>"

definition component :: "cpp_info_t \<Rightarrow> string \<Rightarrow> cpp_component" where
  "component ci n = (case components ci n of None \<Rightarrow> empty_component | Some c \<Rightarrow> c)"

definition update_component ::
  "string \<Rightarrow> (cpp_component \<Rightarrow> cpp_component) \<Rightarrow> world \<Rightarrow> outcome" where
  "update_component n f w =
     Returns (w\<lparr>cpp_info := (cpp_info w)
       \<lparr>components := (components (cpp_info w))(n \<mapsto> f (component (cpp_info w) n))\<rparr>\<rparr>)"

definition set_root_property :: "string \<Rightarrow> string \<Rightarrow> world \<Rightarrow> outcome" where
  "set_root_property k v w =
     Returns (w\<lparr>cpp_info := (cpp_info w)
       \<lparr>root_properties := (root_properties (cpp_info w))(k \<mapsto> v)\<rparr>\<rparr>)"

definition set_root_name :: "string \<Rightarrow> string \<Rightarrow> world \<Rightarrow> outcome" where
  "set_root_name k v w =
     Returns (w\<lparr>cpp_info := (cpp_info w)\<lparr>root_names := (root_names (cpp_info w))(k \<mapsto> v)\<rparr>\<rparr>)"

definition package_info :: "world \<Rightarrow> outcome" where
  "package_info =
     run [set_root_property ''pkg_config_name'' ''gmp-all-do-not-use'',
          update_component ''libgmp''
            (\<lambda>c. c\<lparr>properties := (properties c)(''pkg_config_name'' \<mapsto> ''gmp'')\<rparr>),
          update_component ''libgmp'' (\<lambda>c. c\<lparr>libs := [''gmp'']\<rparr>),
          if_option ''enable_cxx''
            (run [update_component ''gmpxx''
                    (\<lambda>c. c\<lparr>properties := (properties c)(''pkg_config_name'' \<mapsto> ''gmpxx'')\<rparr>),
                  update_component ''gmpxx'' (\<lambda>c. c\<lparr>libs := [''gmpxx'']\<rparr>),
                  update_component ''gmpxx'' (\<lambda>c. c\<lparr>requires := [''libgmp'']\<rparr>),
                  if_cond (\<lambda>w. settings w ''os'' \<noteq> Some ''Windows'')
                    (update_component ''gmpxx'' (\<lambda>c. c\<lparr>system_libs := [''m'']\<rparr>))]),
          set_root_name ''pkg_config'' ''gmp-all-do-not-use'',
          update_component ''libgmp''
            (\<lambda>c. c\<lparr>names := (names c)(''cmake_find_package'' \<mapsto> ''GMP'')\<rparr>),
          update_component ''libgmp''
            (\<lambda>c. c\<lparr>names := (names c)(''cmake_find_package_multi'' \<mapsto> ''GMP'')\<rparr>),
          if_option ''enable_cxx''
            (run [update_component ''gmpxx''
                    (\<lambda>c. c\<lparr>names := (names c)(''cmake_find_package'' \<mapsto> ''GMPXX'')\<rparr>),
                  update_component ''gmpxx''
                    (\<lambda>c. c\<lparr>names := (names c)(''cmake_find_package_multi'' \<mapsto> ''GMPXX'')\<rparr>)])]"

subsection \<open>The class body: \<open>_format_description\<close> and \<open>options_description\<close>\<close>

text \<open>
  The objects that \<open>_format_description\<close> meets: a text, a bound method of a text (what
  \<open>description.strip\<close> without a call evaluates to), a number and a list.
\<close>

datatype pyobj = Str string | BuiltinMethod string string | IntObj int | ListObj "pyobj list"

text \<open>The methods of \<open>str\<close>.\<close>

definition str_methods :: "string list" where
  "str_methods =
    [''capitalize'', ''casefold'', ''center'', ''count'', ''encode'', ''endswith'',
     ''expandtabs'', ''find'', ''format'', ''format_map'', ''index'', ''isalnum'', ''isalpha'',
     ''isascii'', ''isdecimal'', ''isdigit'', ''isidentifier'', ''islower'', ''isnumeric'',
     ''isprintable'', ''isspace'', ''istitle'', ''isupper'', ''join'', ''ljust'', ''lower'',
     ''lstrip'', ''maketrans'', ''partition'', ''removeprefix'', ''removesuffix'', ''replace'',
     ''rfind'', ''rindex'', ''rjust'', ''rpartition'', ''rsplit'', ''rstrip'', ''split'',
     ''splitlines'', ''startswith'', ''strip'', ''swapcase'', ''title'', ''translate'',
     ''upper'', ''zfill'']"

text \<open>
  Attribute access by a name without underscores: a text has its methods, a bound method
  of a text has none. Of the special attributes only the name and the receiver of a bound
  method are modelled. Any other name raises \<open>AttributeError\<close>.
\<close>

fun py_getattr :: "pyobj \<Rightarrow> string \<Rightarrow> exn + pyobj" where
  "py_getattr (Str s) n =
     (if n \<in> set str_methods then Inr (BuiltinMethod s n) else Inl (AttributeError ''str'' n))"
| "py_getattr (BuiltinMethod s m) n =
     (if n = ''__name__'' \<or> n = ''__qualname__'' then Inr (Str m)
      else if n = ''__self__'' then Inr (Str s)
      else Inl (AttributeError ''builtin_function_or_method'' n))"
| "py_getattr (IntObj i) n = Inl (AttributeError ''int'' n)"
| "py_getattr (ListObj xs) n = Inl (AttributeError ''list'' n)"

text \<open>\<open>first, rest = ...\<close>: the right-hand side must give exactly two texts.\<close>

fun unpack2 :: "pyobj \<Rightarrow> exn + (string \<times> string)" where
  "unpack2 (ListObj [Str a, Str b]) = Inr (a, b)"
| "unpack2 x = Inl (TypeError ''unpack'')"

text \<open>
  \<open>_format_description\<close>. The interpreter's call of an object and the functions
  \<open>dedent\<close> and \<open>fill\<close> of \<open>textwrap\<close> are parameters.
\<close>

definition format_description ::
  "(pyobj \<Rightarrow> pyobj list \<Rightarrow> exn + pyobj) \<Rightarrow> (string \<Rightarrow> string) \<Rightarrow> (string \<Rightarrow> string)
     \<Rightarrow> string \<Rightarrow> exn + string" where
  "format_description py_call dedent fill description =
     (case py_getattr (Str description) ''strip'' of
        Inl e \<Rightarrow> Inl e
      | Inr strip \<Rightarrow>
          (case py_getattr strip ''lsplit'' of
             Inl e \<Rightarrow> Inl e
           | Inr lsplit \<Rightarrow>
               (case py_call lsplit [Str [CHR 0x0A], IntObj 1] of
                  Inl e \<Rightarrow> Inl e
                | Inr r \<Rightarrow>
                    (case unpack2 r of
                       Inl e \<Rightarrow> Inl e
                     | Inr (first, rest) \<Rightarrow> Inr (fill (first @ [CHR 0x0A] @ dedent rest))))))"

text \<open>
  The comprehension of \<open>options_description\<close> is
  \<open>{option: description for option, _format_description(description) in {...}.items()}\<close>.
  Its loop target is the pair of a name and a call. Python compiles a module before it
  runs any of it, and refuses a target that is not a name, attribute, subscript, or a
  tuple or list of targets.
\<close>

datatype pyexpr =
    Name string
  | Attribute pyexpr string
  | Subscript pyexpr pyexpr
  | Call pyexpr "pyexpr list"
  | TupleExpr "pyexpr list"
  | ListExpr "pyexpr list"
  | Constant

text \<open>What the compiler objects to in a target, from left to right.\<close>

fun target_errors :: "pyexpr \<Rightarrow> string list" where
  "target_errors (Name n) = []"
| "target_errors (Attribute e n) = []"
| "target_errors (Subscript e i) = []"
| "target_errors (Call f args) = [''cannot assign to function call'']"
| "target_errors (TupleExpr es) = concat (map target_errors es)"
| "target_errors (ListExpr es) = concat (map target_errors es)"
| "target_errors Constant = [''cannot assign to literal'']"

definition compile_target :: "pyexpr \<Rightarrow> exn + unit" where
  "compile_target t = (case target_errors t of [] \<Rightarrow> Inr () | m # ms \<Rightarrow> Inl (SyntaxError m))"

definition options_description_target :: pyexpr where
  "options_description_target =
     TupleExpr [Name ''option'', Call (Name ''_format_description'') [Name ''description'']]"

subsection \<open>Example states\<close>

text \<open>The default options on Linux, with gcc, for x86_64; every external tool succeeds.\<close>

definition example_world :: world where
  "example_world =
     \<lparr>ref = ''gmp/6.3.0'', version = ''6.3.0'',
      settings = map_of [(''os'', ''Linux''), (''compiler'', ''gcc''),
                         (''build_type'', ''Release''), (''arch'', ''x86_64'')],
      settings_build = None,
      options = map_of GmpConan_default_options,
      info_options = map_of GmpConan_default_options,
      conf = Map.empty,
      conan_data_sources = [''6.3.0'' \<mapsto> ''gmp-6.3.0.tar.xz''],
      source_folder = ''src'', package_folder = ''package'',
      file_mode = [''src/configure'' \<mapsto> 420],
      tool_result = (\<lambda>c. None),
      commands = [], win_bash = False, tool_requires = [],
      toolchain = \<lparr>configure_args = [], extra_cflags = [], extra_cxxflags = [], env_defines = []\<rparr>,
      cpp_info = \<lparr>root_properties = Map.empty, root_names = Map.empty, components = Map.empty\<rparr>\<rparr>"

text \<open>Variations of it: the states the theorems below are evaluated at.\<close>

definition msvc_shared_world :: world where
  "msvc_shared_world =
     example_world\<lparr>settings := (settings example_world)(''os'' \<mapsto> ''Windows'', ''compiler'' \<mapsto> ''msvc''),
                   options := (options example_world)(''shared'' \<mapsto> PyBool True)\<rparr>"



definition arm_world :: world where
  "arm_world = example_world\<lparr>settings := (settings example_world)(''arch'' \<mapsto> ''armv8'')\<rparr>"

definition cxx_world :: world where
  "cxx_world = example_world\<lparr>options := (options example_world)(''cxx'' \<mapsto> PyBool True)\<rparr>"

definition macos_world :: world where
  "macos_world = example_world\<lparr>settings := (settings example_world)(''os'' \<mapsto> ''Macos'')\<rparr>"

definition no_checks_world :: world where
  "no_checks_world =
     example_world\<lparr>options := (options example_world)(''run_checks'' \<mapsto> PyBool False),
                   info_options := (info_options example_world)(''run_checks'' \<mapsto> PyBool False)\<rparr>"

text \<open>The download and the plain \<open>make\<close> fail, every other tool succeeds.\<close>

definition failing_tools :: "command \<Rightarrow> exn option" where
  "failing_tools c =
     (if c = Get ''gmp-6.3.0.tar.xz'' ''src'' then Some (ToolFailure ''download failed'')
      else if c = AutotoolsMake None then Some (ToolFailure ''make: Error 2'')
      else None)"

definition failing_world :: world where
  "failing_world = example_world\<lparr>tool_result := failing_tools\<rparr>"

text \<open>The external calls that a method added to the record of the state it started in.\<close>

definition invoked :: "world \<Rightarrow> outcome \<Rightarrow> command list" where
  "invoked w r = drop (length (commands w)) (commands (world_of r))"

section \<open>Properties\<close>

subsection \<open>Auxiliary facts\<close>

lemma is_apple_os_commands [simp]: "is_apple_os (w\<lparr>commands := cs\<rparr>) = is_apple_os w"
  by (simp add: is_apple_os_def)

lemma bit_64_iff: "bit (64::int) n = (n = 6)"
proof -
  have "(64::int) = 2 ^ 6" by simp
  then show ?thesis by (simp only: bit_exp_iff) auto
qed

subsection \<open>The validation rule\<close>

text \<open>
  Claim C1. In a configuration, where the option \<open>shared\<close> exists, \<open>validate\<close> raises
  \<open>ConanInvalidConfiguration\<close> exactly when the compiler is MSVC and \<open>shared\<close> is
  true, and raises nothing otherwise. In both cases it leaves the state of the recipe as
  it found it: no external command has been invoked when the error is reported.
\<close>

theorem validate_raises_iff_msvc_shared:
  assumes "options w ''shared'' = Some v"
  shows "raised (validate w) =
           (if is_msvc w \<and> truthy v then
              Some (ConanInvalidConfiguration
                (ref w @ '' cannot be built as a shared library using Visual Studio: some error occurs at link time''))
            else None)
         \<and> world_of (validate w) = w"
  using assms by (simp add: validate_def options_getattr_def)

theorem validate_raises_iff_msvc_shared_witness:
  "options msvc_shared_world ''shared'' = Some (PyBool True)
   \<and> raised (validate msvc_shared_world) =
       Some (ConanInvalidConfiguration
         ''gmp/6.3.0 cannot be built as a shared library using Visual Studio: some error occurs at link time'')
   \<and> commands (world_of (validate msvc_shared_world)) = []"
  using validate_raises_iff_msvc_shared [of msvc_shared_world "PyBool True"]
  by (simp add: msvc_shared_world_def example_world_def is_msvc_def)

subsection \<open>The class body\<close>

text \<open>
  Claim C2 says that the class body evaluates without error. It does not: the loop target
  of the comprehension of \<open>options_description\<close> contains a call, which the compiler
  refuses with a \<open>SyntaxError\<close>, so the module is never run; and \<open>_format_description\<close>
  raises \<open>AttributeError\<close> for every description and whatever the library functions do,
  because \<open>description.strip\<close> is a bound method, which has no attribute \<open>lsplit\<close>.
\<close>

theorem class_body_does_not_load:
  "compile_target options_description_target = Inl (SyntaxError ''cannot assign to function call'')
   \<and> format_description py_call dedent fill description =
       Inl (AttributeError ''builtin_function_or_method'' ''lsplit'')"
  by (simp add: compile_target_def options_description_target_def format_description_def
      str_methods_def)

subsection \<open>The package identity\<close>

text \<open>
  Claim C5. Conan computes the package ID from \<open>self.info\<close>, after \<open>package_id\<close> has
  run. For two states whose \<open>info.options\<close> differ only in the value of \<open>run_checks\<close>,
  \<open>package_id\<close> returns on both and leaves the same \<open>info.options\<close>: those it found,
  without \<open>run_checks\<close> and with every other option as it was.
\<close>

theorem package_id_ignores_run_checks:
  assumes "info_options w1 ''run_checks'' = Some a"
    and "info_options w2 = (info_options w1)(''run_checks'' \<mapsto> b)"
  shows "raised (package_id w1) = None \<and> raised (package_id w2) = None
     \<and> info_options (world_of (package_id w1)) = info_options (world_of (package_id w2))
     \<and> info_options (world_of (package_id w1)) = (info_options w1)(''run_checks'' := None)"
  using assms by (simp add: package_id_def)

theorem package_id_ignores_run_checks_witness:
  "info_options example_world ''run_checks'' = Some (PyBool True)
   \<and> info_options no_checks_world ''run_checks'' = Some (PyBool False)
   \<and> raised (package_id example_world) = None
   \<and> raised (package_id no_checks_world) = None
   \<and> info_options (world_of (package_id example_world))
       = info_options (world_of (package_id no_checks_world))"
  using package_id_ignores_run_checks [of example_world "PyBool True" no_checks_world "PyBool False"]
  by (simp add: no_checks_world_def example_world_def GmpConan_default_options_def)

subsection \<open>The published metadata\<close>

text \<open>
  Claim C10 says that \<open>package_info\<close> publishes the component \<open>libgmp\<close> and the
  \<open>pkg_config_name\<close> of the package for every configuration. The recipe does not
  declare an option \<open>enable_cxx\<close>, and in every state without that option, so in every
  configuration, \<open>package_info\<close> raises when it reads it, right after it has filled
  in \<open>libgmp\<close>: the method never returns, and nothing is published.
\<close>

theorem package_info_raises_before_publishing:
  assumes "options w ''enable_cxx'' = None"
  shows "raised (package_info w) = Some (ConanException ''enable_cxx'')
         \<and> \<not> declared ''enable_cxx''"
  using assms
  by (simp add: package_info_def if_option_def options_getattr_def update_component_def
      set_root_property_def declared_def GmpConan_options_def)

theorem package_info_raises_before_publishing_witness:
  "options example_world ''enable_cxx'' = None
   \<and> raised (package_info example_world) = Some (ConanException ''enable_cxx'')"
  using package_info_raises_before_publishing [of example_world]
  by (simp add: example_world_def GmpConan_default_options_def)

subsection \<open>The order of the build\<close>

text \<open>
  Claim C6. In a configuration, where the option \<open>run_checks\<close> exists, the external calls
  of \<open>build\<close> are, in this order and each at most once, the patches, \<open>configure\<close>,
  \<open>make\<close> and, only when \<open>run_checks\<close> is true, \<open>make check\<close>: what is invoked is
  always a prefix of that list, so \<open>configure\<close> comes before \<open>make\<close>, the check target
  comes after \<open>make\<close>, and it is never invoked when \<open>run_checks\<close> is false. When the
  tools succeed (and, on an Apple system, the configure script is there), \<open>build\<close> returns
  and the whole list has been invoked.
\<close>

theorem build_command_order:
  assumes "options w ''run_checks'' = Some v"
  shows "(\<exists>cs. commands (world_of (build w)) = commands w @ cs
            \<and> prefix cs ([ApplyConandataPatches, AutotoolsConfigure, AutotoolsMake None]
                          @ (if truthy v then [AutotoolsMake (Some ''check'')] else [])))
       \<and> ((\<forall>c. tool_result w c = None)
            \<and> (is_apple_os w \<longrightarrow> file_mode w (path_join (source_folder w) ''configure'') \<noteq> None)
          \<longrightarrow> raised (build w) = None
              \<and> commands (world_of (build w)) =
                  commands w @ [ApplyConandataPatches, AutotoolsConfigure, AutotoolsMake None]
                    @ (if truthy v then [AutotoolsMake (Some ''check'')] else []))"
  using assms
  by (auto simp: build_def patch_sources_def invoke_def if_cond_def if_option_def
      options_getattr_def os_stat_def os_chmod_def Let_def split: option.splits)

theorem build_command_order_witness:
  "options example_world ''run_checks'' = Some (PyBool True)
   \<and> options no_checks_world ''run_checks'' = Some (PyBool False)
   \<and> raised (build example_world) = None
   \<and> commands (world_of (build example_world)) =
       [ApplyConandataPatches, AutotoolsConfigure, AutotoolsMake None, AutotoolsMake (Some ''check'')]
   \<and> raised (build no_checks_world) = None
   \<and> commands (world_of (build no_checks_world)) =
       [ApplyConandataPatches, AutotoolsConfigure, AutotoolsMake None]"
  using build_command_order [of example_world "PyBool True"]
    build_command_order [of no_checks_world "PyBool False"]
  by (simp add: no_checks_world_def example_world_def GmpConan_default_options_def is_apple_os_def)

subsection \<open>Failures of the external tools\<close>

text \<open>
  Claim C7. When a tool that \<open>source\<close> or \<open>build\<close> invokes raises an error, the method
  raises that same error; the failing call is the last call of the method, and no call is
  made twice: nothing is caught, retried or recovered.
\<close>

theorem tool_errors_propagate:
  assumes "tool_result w c = Some e"
  shows "(c \<in> set (invoked w (source w)) \<longrightarrow>
            raised (source w) = Some e \<and> invoked w (source w) = [c])
       \<and> (c \<in> set (invoked w (build w)) \<longrightarrow>
            raised (build w) = Some e \<and> last (invoked w (build w)) = c
            \<and> distinct (invoked w (build w)))"
proof (intro conjI)
  show "c \<in> set (invoked w (source w)) \<longrightarrow>
          raised (source w) = Some e \<and> invoked w (source w) = [c]"
    using assms
    by (auto simp: invoked_def source_def invoke_def Let_def split: option.splits)
  show "c \<in> set (invoked w (build w)) \<longrightarrow>
          raised (build w) = Some e \<and> last (invoked w (build w)) = c
          \<and> distinct (invoked w (build w))"
    using assms
    apply (simp add: invoked_def build_def patch_sources_def invoke_def if_cond_def if_option_def
        options_getattr_def os_stat_def os_chmod_def Let_def split: option.splits)
    apply (intro conjI impI allI)
                        apply auto
    done
qed

theorem tool_errors_propagate_witness:
  "tool_result failing_world (Get ''gmp-6.3.0.tar.xz'' ''src'') = Some (ToolFailure ''download failed'')
   \<and> tool_result failing_world (AutotoolsMake None) = Some (ToolFailure ''make: Error 2'')
   \<and> invoked failing_world (source failing_world) = [Get ''gmp-6.3.0.tar.xz'' ''src'']
   \<and> raised (source failing_world) = Some (ToolFailure ''download failed'')
   \<and> AutotoolsMake None \<in> set (invoked failing_world (build failing_world))
   \<and> raised (build failing_world) = Some (ToolFailure ''make: Error 2'')
   \<and> last (invoked failing_world (build failing_world)) = AutotoolsMake None"
proof -
  have g: "tool_result failing_world (Get ''gmp-6.3.0.tar.xz'' ''src'') = Some (ToolFailure ''download failed'')"
    by (simp add: failing_world_def failing_tools_def)
  have m: "tool_result failing_world (AutotoolsMake None) = Some (ToolFailure ''make: Error 2'')"
    by (simp add: failing_world_def failing_tools_def)
  have s: "invoked failing_world (source failing_world) = [Get ''gmp-6.3.0.tar.xz'' ''src'']"
    by (simp add: invoked_def source_def invoke_def failing_world_def failing_tools_def
        example_world_def)
  have b: "invoked failing_world (build failing_world) =
      [ApplyConandataPatches, AutotoolsConfigure, AutotoolsMake None]"
    by (simp add: invoked_def build_def patch_sources_def if_cond_def invoke_def
        failing_world_def failing_tools_def example_world_def is_apple_os_def)
  show ?thesis
    using tool_errors_propagate [OF g] tool_errors_propagate [OF m] g m s b by simp
qed

subsection \<open>The mode of the configure script\<close>

text \<open>
  Claim C8. Let the patches apply and the configure script exist with mode \<open>m\<close>. On an
  Apple system \<open>_patch_sources\<close> sets its mode to \<open>m | stat.S_IEXEC\<close> and changes the
  mode of no other file; elsewhere it changes no mode at all. In the new mode the bit 6
  (octal 100, execution by the owner) is set and every other bit is the bit of \<open>m\<close>.
  \<open>build\<close> starts with \<open>_patch_sources\<close> and changes no mode afterwards.
\<close>

theorem patch_sources_sets_exec_bit:
  assumes "tool_result w ApplyConandataPatches = None"
    and "file_mode w (path_join (source_folder w) ''configure'') = Some m"
  shows "file_mode (world_of (patch_sources w)) =
           (if is_apple_os w
            then (file_mode w)(path_join (source_folder w) ''configure'' \<mapsto> m OR S_IEXEC)
            else file_mode w)
       \<and> (\<forall>n. bit (m OR S_IEXEC) n = (bit m n \<or> n = 6))
       \<and> file_mode (world_of (build w)) = file_mode (world_of (patch_sources w))"
  using assms
  by (auto simp: build_def patch_sources_def invoke_def if_cond_def if_option_def
      options_getattr_def os_stat_def os_chmod_def Let_def S_IEXEC_def bit_or_iff bit_64_iff
      split: option.splits)

theorem patch_sources_sets_exec_bit_witness:
  "tool_result macos_world ApplyConandataPatches = None
   \<and> file_mode macos_world ''src/configure'' = Some 420
   \<and> file_mode (world_of (patch_sources macos_world)) ''src/configure'' = Some 484
   \<and> file_mode (world_of (patch_sources example_world)) ''src/configure'' = Some 420"
  using patch_sources_sets_exec_bit [of macos_world 420]
    patch_sources_sets_exec_bit [of example_world 420]
  by (simp add: macos_world_def example_world_def is_apple_os_def path_join_def S_IEXEC_def)

subsection \<open>The option \<open>fPIC\<close>\<close>


subsection \<open>Options that the methods name and the recipe does not declare\<close>

text \<open>
  Claim C3 says that \<open>config_options\<close> deletes an option that the recipe declares. For the
  default options on an \<open>armv8\<close> system it tries to delete \<open>enable_fat\<close>; the recipe
  declares \<open>fat\<close> and not \<open>enable_fat\<close>, so the deletion raises and \<open>fat\<close> stays
  available. \<open>generate\<close> raises there too, before it has produced a flag, when it reads
  \<open>enable_cxx\<close>.
\<close>

theorem config_options_deletes_undeclared_option:
  "config_options arm_world = Raises (ConanException ''enable_fat'') arm_world
   \<and> \<not> declared ''enable_fat'' \<and> declared ''fat''
   \<and> options arm_world ''fat'' = Some (PyBool False)
   \<and> raised (generate version_ge unix_path arm_world) = Some (ConanException ''enable_cxx'')"
  by (simp add: arm_world_def example_world_def GmpConan_default_options_def GmpConan_options_def
      declared_def config_options_def if_cond_def options_delattr_def
      generate_def generate_flags_def invoke_def options_getattr_def)

text \<open>
  Claim C4 says that \<open>package_info\<close> publishes the component \<open>gmpxx\<close> when the C++
  option is enabled. With the declared option \<open>cxx\<close> set to true, \<open>package_info\<close> raises
  when it reads \<open>enable_cxx\<close>, and the state it leaves has no component \<open>gmpxx\<close>.
  \<open>configure\<close> raises at the same read.
\<close>

theorem package_info_cxx_raises:
  "options cxx_world ''cxx'' = Some (PyBool True)
   \<and> raised (package_info cxx_world) = Some (ConanException ''enable_cxx'')
   \<and> components (cpp_info (world_of (package_info cxx_world))) ''gmpxx'' = None
   \<and> raised (configure cxx_world) = Some (ConanException ''enable_cxx'')"
  by (simp add: cxx_world_def example_world_def GmpConan_default_options_def
      package_info_def if_cond_def if_option_def options_getattr_def
      update_component_def set_root_property_def set_root_name_def component_def
      configure_def if_not_option_def options_get_safe_def)

end
